theory Spec2Isabelle
  imports Complex_Main
begin

section \<open>Python values shared by the embedded functions\<close>

text \<open>
  The Python sources pass JSON-like dictionaries around. A value is one of the JSON
  shapes; a dictionary read with \<^verbatim>\<open>d.get(k, default)\<close> is a finite map from keys to
  values. Numbers are integers here: the embedded functions never compute with a number
  they read, and a float is treated by them as an integer is. A string is a sequence of
  characters with code points below 256. The calls to \<^verbatim>\<open>time.sleep\<close> only delay and are
  left out; every other effect (random draws, UUIDs, the clock, file reads, HTTP calls) is
  an explicit argument.
\<close>

datatype pyval =
    PNone
  | PBool bool
  | PInt int
  | PStr string
  | PList "pyval list"
  | PDict "(string \<times> pyval) list"

type_synonym pydict = "string \<rightharpoonup> pyval"

text \<open>Python truthiness, as used by \<^verbatim>\<open>if x:\<close> and \<^verbatim>\<open>not x\<close>.\<close>

fun truthy :: "pyval \<Rightarrow> bool" where
  "truthy PNone = False"
| "truthy (PBool b) = b"
| "truthy (PInt i) = (i \<noteq> 0)"
| "truthy (PStr s) = (s \<noteq> [])"
| "truthy (PList xs) = (xs \<noteq> [])"
| "truthy (PDict kvs) = (kvs \<noteq> [])"

text \<open>\<^verbatim>\<open>d.get(k, default)\<close>.\<close>

definition dict_get :: "pydict \<Rightarrow> string \<Rightarrow> pyval \<Rightarrow> pyval" where
  "dict_get d k dflt = (case d k of None \<Rightarrow> dflt | Some v \<Rightarrow> v)"

text \<open>
  \<^verbatim>\<open>str.lower\<close> on code points below 256: the letters A to Z, and the letters from
  U+00C0 to U+00DE except the multiplication sign U+00D7, move up by 32; every other
  character is kept. \<^verbatim>\<open>str.upper\<close> is applied by the sources to hexadecimal digits only,
  and is modelled on ASCII.
\<close>

definition lower_char :: "char \<Rightarrow> char" where
  "lower_char c =
     (let n = (of_char c :: nat)
      in if (65 \<le> n \<and> n \<le> 90) \<or> (192 \<le> n \<and> n \<le> 222 \<and> n \<noteq> 215)
         then char_of (n + 32) else c)"

definition upper_char :: "char \<Rightarrow> char" where
  "upper_char c =
     (let n = (of_char c :: nat) in if 97 \<le> n \<and> n \<le> 122 then char_of (n - 32) else c)"

definition str_lower :: "string \<Rightarrow> string" where
  "str_lower s = map lower_char s"

definition str_upper :: "string \<Rightarrow> string" where
  "str_upper s = map upper_char s"

text \<open>
  The float literal \<^verbatim>\<open>0.1\<close> is the double \<open>3602879701896397 / 2^55\<close>. A draw of
  \<^verbatim>\<open>random.random()\<close> is a double in \<open>[0, 1)\<close>; doubles compare exactly, so the draw
  is a rational argument and \<^verbatim>\<open>random.random() > 0.1\<close> is the comparison below.
\<close>

definition py_0_1 :: rat where
  "py_0_1 = 3602879701896397 / 36028797018963968"

definition exceeds_0_1 :: "rat \<Rightarrow> bool" where
  "exceeds_0_1 r = (py_0_1 < r)"


section \<open>cli/benchmark\_policy.py\<close>

subsection \<open>simulate\_role\_validation\_fallback\<close>

record role_request =
  rr_role :: string
  rr_resource :: string
  rr_action :: string

record role_result =
  rv_allowed :: bool
  rv_role :: string
  rv_resource :: string
  rv_action :: string
  rv_policy_id :: string

text \<open>The role-based access control matrix, in the order of the dictionary literal.\<close>

definition rbac_matrix :: "(string \<times> (string \<times> string list) list) list" where
  "rbac_matrix =
     [(''doctor'',
        [(''medical_record'', [''read'', ''write'']),
         (''prescription'', [''read'', ''write'', ''approve'']),
         (''lab_result'', [''read'']),
         (''imaging'', [''read'', ''write'']),
         (''consultation'', [''read'', ''write'', ''approve''])]),
      (''nurse'',
        [(''medical_record'', [''read'', ''write'']),
         (''prescription'', [''read'']),
         (''lab_result'', [''read'']),
         (''imaging'', [''read'']),
         (''consultation'', [''read'', ''write''])]),
      (''admin'',
        [(''medical_record'', [''read'']),
         (''prescription'', [''read'']),
         (''lab_result'', [''read'']),
         (''imaging'', [''read'']),
         (''consultation'', [''read''])]),
      (''researcher'',
        [(''medical_record'', [''read'']),
         (''lab_result'', [''read'']),
         (''imaging'', [''read''])]),
      (''pharmacist'',
        [(''prescription'', [''read'', ''approve'']),
         (''medical_record'', [''read''])])]"

text \<open>
  \<^verbatim>\<open>uuid_hex\<close> is \<^verbatim>\<open>uuid.uuid4().hex\<close>, the 32 hexadecimal digits of a fresh UUID.
  The three nested \<^verbatim>\<open>if\<close>s of the source are the three nested lookups.
\<close>

definition simulate_role_validation_fallback :: "role_request \<Rightarrow> string \<Rightarrow> role_result" where
  "simulate_role_validation_fallback request uuid_hex =
     (let role = rr_role request;
          resource = rr_resource request;
          action = rr_action request;
          allowed =
            (case map_of rbac_matrix role of
               None \<Rightarrow> False
             | Some resources \<Rightarrow>
                 (case map_of resources resource of
                    None \<Rightarrow> False
                  | Some actions \<Rightarrow> action \<in> set actions))
      in \<lparr>rv_allowed = allowed, rv_role = role, rv_resource = resource, rv_action = action,
          rv_policy_id = ''policy_'' @ take 8 uuid_hex\<rparr>)"

text \<open>
  What the claims call registered and listed, read off the matrix as a table of
  entries rather than through the lookups of the code.
\<close>

definition role_registered :: "string \<Rightarrow> bool" where
  "role_registered role = list_ex (\<lambda>(r, rs). r = role) rbac_matrix"

definition resource_listed :: "string \<Rightarrow> string \<Rightarrow> bool" where
  "resource_listed role resource =
     list_ex (\<lambda>(r, rs). r = role \<and> list_ex (\<lambda>(x, acts). x = resource) rs) rbac_matrix"

definition action_listed :: "string \<Rightarrow> string \<Rightarrow> string \<Rightarrow> bool" where
  "action_listed role resource action =
     list_ex (\<lambda>(r, rs). r = role \<and> list_ex (\<lambda>(x, acts). x = resource \<and> action \<in> set acts) rs)
       rbac_matrix"


subsection \<open>simulate\_policy\_validation\_fallback\<close>

text \<open>
  The request dictionary of \<^verbatim>\<open>generate_policy_request\<close>: the keys the simulations read.
  The key \<^verbatim>\<open>cross_jurisdiction\<close> is optional, and so is every key of its dictionary
  (each is read with \<^verbatim>\<open>.get\<close> and a default).
\<close>

record cross_info =
  ci_source_country :: "string option"
  ci_target_country :: "string option"
  ci_agreement_id :: "string option"

record policy_request =
  pr_actor_role :: string
  pr_action :: string
  pr_location :: string
  pr_cross_jurisdiction :: "cross_info option"

record cross_result =
  cr_source_country :: string
  cr_target_country :: string
  cr_agreement_valid :: bool
  cr_agreement_id :: string

text \<open>
  The result dictionary. \<^verbatim>\<open>pv_cross_jurisdiction\<close> is the key that only the
  cross-jurisdiction simulation adds.
\<close>

record policy_result =
  pv_allowed :: bool
  pv_reason :: string
  pv_validator_id :: string
  pv_validator_name :: string
  pv_request_id :: string
  pv_timestamp :: string
  pv_cross_jurisdiction :: "cross_result option"

text \<open>
  \<^verbatim>\<open>request_id\<close> is \<^verbatim>\<open>str(uuid.uuid4())\<close> and \<^verbatim>\<open>now\<close> is
  \<^verbatim>\<open>datetime.utcnow().isoformat()\<close>. The \<^verbatim>\<open>if\<close>/\<^verbatim>\<open>elif\<close> chain over the role is kept in
  the order of the source; a role none of the branches names keeps the default, allowed.
\<close>

definition simulate_policy_validation_fallback ::
    "policy_request \<Rightarrow> string \<Rightarrow> string \<Rightarrow> policy_result" where
  "simulate_policy_validation_fallback request request_id now =
     (let role = pr_actor_role request;
          action = pr_action request;
          (allowed, reason) =
            (if role = ''general_doctor'' \<or> role = ''specialist'' then
               (if action \<notin> set [''prescribe'', ''diagnose'', ''refer'', ''issue_certificate'']
                then (False, ''Action '' @ action @ '' not allowed for '' @ role)
                else (True, ''Policy validation passed''))
             else if role = ''nurse'' then
               (if action \<in> set [''prescribe'', ''diagnose'']
                then (False, ''Action '' @ action @ '' not allowed for nurse'')
                else (True, ''Policy validation passed''))
             else if role = ''researcher'' then
               (if action \<noteq> ''access_anonymized_data''
                then (False, ''Researchers can only access anonymized data'')
                else (True, ''Policy validation passed''))
             else (True, ''Policy validation passed''))
      in \<lparr>pv_allowed = allowed, pv_reason = reason,
          pv_validator_id = ''validator_'' @ str_lower (pr_location request),
          pv_validator_name = pr_location request @ '' Health Authority'',
          pv_request_id = request_id,
          pv_timestamp = now @ ''Z'',
          pv_cross_jurisdiction = None\<rparr>)"

subsection \<open>simulate\_cross\_jurisdiction\_validation\_fallback\<close>

text \<open>
  \<^verbatim>\<open>cross_info.get("source_country", request.get("location", "unknown"))\<close>,
  \<^verbatim>\<open>cross_info.get("target_country", "unknown")\<close> and
  \<^verbatim>\<open>cross_info.get("agreement_id", "unknown")\<close>, with \<^verbatim>\<open>cross_info\<close> the empty dictionary
  when the request has no \<^verbatim>\<open>cross_jurisdiction\<close> key.
\<close>

definition cross_source :: "policy_request \<Rightarrow> string" where
  "cross_source request =
     (case pr_cross_jurisdiction request of
        None \<Rightarrow> pr_location request
      | Some info \<Rightarrow>
          (case ci_source_country info of None \<Rightarrow> pr_location request | Some s \<Rightarrow> s))"

definition cross_target :: "policy_request \<Rightarrow> string" where
  "cross_target request =
     (case pr_cross_jurisdiction request of
        None \<Rightarrow> ''unknown''
      | Some info \<Rightarrow> (case ci_target_country info of None \<Rightarrow> ''unknown'' | Some t \<Rightarrow> t))"

definition cross_agreement_id :: "policy_request \<Rightarrow> string" where
  "cross_agreement_id request =
     (case pr_cross_jurisdiction request of
        None \<Rightarrow> ''unknown''
      | Some info \<Rightarrow> (case ci_agreement_id info of None \<Rightarrow> ''unknown'' | Some a \<Rightarrow> a))"

text \<open>
  \<^verbatim>\<open>draw\<close> is the value of \<^verbatim>\<open>random.random()\<close>; the agreement between the two
  countries is valid when the draw exceeds \<^verbatim>\<open>0.1\<close>, whatever the countries are.
\<close>

definition simulate_cross_jurisdiction_validation_fallback ::
    "policy_request \<Rightarrow> string \<Rightarrow> string \<Rightarrow> rat \<Rightarrow> policy_result" where
  "simulate_cross_jurisdiction_validation_fallback request request_id now draw =
     (let result = simulate_policy_validation_fallback request request_id now;
          source = cross_source request;
          target = cross_target request;
          agreement_valid = exceeds_0_1 draw;
          result = result\<lparr>pv_cross_jurisdiction :=
                     Some \<lparr>cr_source_country = source, cr_target_country = target,
                           cr_agreement_valid = agreement_valid,
                           cr_agreement_id = cross_agreement_id request\<rparr>\<rparr>
      in if \<not> agreement_valid
         then result\<lparr>pv_allowed := False,
                pv_reason := ''No valid agreement between '' @ source @ '' and '' @ target\<rparr>
         else result)"

subsection \<open>simulate\_validator\_selection\_fallback\<close>

record validator_request =
  vq_action :: string
  vq_location :: string

record validator_selection =
  vs_validator_id :: string
  vs_validator_name :: string
  vs_country :: string
  vs_validates_for :: "string list"
  vs_validation_time :: rat

text \<open>
  The validator mapping by country: each entry is the pair of the keys \<^verbatim>\<open>default\<close> and
  \<^verbatim>\<open>validator_name\<close>.
\<close>

definition validator_mapping :: "(string \<times> (string \<times> string)) list" where
  "validator_mapping =
     [(''IN'', (''mci_validator'', ''Medical Council of India'')),
      (''CA'', (''health_canada'', ''Health Canada'')),
      (''US'', (''us_hhs'', ''US Department of Health & Human Services'')),
      (''GB'', (''nhs_validator'', ''National Health Service UK''))]"

text \<open>
  \<^verbatim>\<open>validator_mapping.get(country, {"default": "unknown", "validator_name": "Unknown"})\<close>;
  \<^verbatim>\<open>clock\<close> is \<^verbatim>\<open>time.time()\<close>. The action of the request is not read.
\<close>

definition simulate_validator_selection_fallback ::
    "validator_request \<Rightarrow> rat \<Rightarrow> validator_selection" where
  "simulate_validator_selection_fallback request clock =
     (let country = vq_location request;
          country_validators =
            (case map_of validator_mapping country of
               None \<Rightarrow> (''unknown'', ''Unknown'')
             | Some v \<Rightarrow> v)
      in \<lparr>vs_validator_id = fst country_validators,
          vs_validator_name = snd country_validators,
          vs_country = country,
          vs_validates_for = [''prescribe'', ''diagnose'', ''refer'', ''issue_certificate''],
          vs_validation_time = clock\<rparr>)"

text \<open>A country is registered when the mapping has an entry for it.\<close>

definition validator_registered :: "string \<Rightarrow> bool" where
  "validator_registered location = list_ex (\<lambda>(c, v). c = location) validator_mapping"


subsection \<open>simulate\_policy\_oracle\_integration\_fallback\<close>

record oracle_request =
  oq_policy_request :: policy_request
  oq_agreement_id :: string
  oq_clause_ids :: "string list"

record integration_result =
  ig_policy_result :: policy_result
  ig_oracle_validated :: bool
  ig_agreement_id :: string
  ig_valid_clauses :: "string list"
  ig_invalid_clauses :: "string list"
  ig_validation_details :: "string \<rightharpoonup> string"

text \<open>
  The loop over the clause ids draws once per clause and appends the id to one of two
  lists; \<^verbatim>\<open>draws i\<close> is the draw of iteration \<^verbatim>\<open>i\<close>. The loop runs whatever the policy
  result is.
\<close>

fun classify_clauses ::
    "(nat \<Rightarrow> rat) \<Rightarrow> nat \<Rightarrow> string list \<Rightarrow> string list \<Rightarrow> string list \<Rightarrow>
     string list \<times> string list" where
  "classify_clauses draws i [] valid_clauses invalid_clauses = (valid_clauses, invalid_clauses)"
| "classify_clauses draws i (c # cs) valid_clauses invalid_clauses =
     (if exceeds_0_1 (draws i)
      then classify_clauses draws (Suc i) cs (valid_clauses @ [c]) invalid_clauses
      else classify_clauses draws (Suc i) cs valid_clauses (invalid_clauses @ [c]))"

definition simulate_policy_oracle_integration_fallback ::
    "oracle_request \<Rightarrow> string \<Rightarrow> string \<Rightarrow> (nat \<Rightarrow> rat) \<Rightarrow> integration_result" where
  "simulate_policy_oracle_integration_fallback oracle_request request_id now draws =
     (let policy_result =
            simulate_policy_validation_fallback (oq_policy_request oracle_request)
              request_id now;
          (valid_clauses, invalid_clauses) =
            classify_clauses draws 0 (oq_clause_ids oracle_request) [] []
      in \<lparr>ig_policy_result = policy_result,
          ig_oracle_validated = (length invalid_clauses = 0),
          ig_agreement_id = oq_agreement_id oracle_request,
          ig_valid_clauses = valid_clauses,
          ig_invalid_clauses = invalid_clauses,
          ig_validation_details =
            (\<lambda>c. if c \<in> set (oq_clause_ids oracle_request)
                 then Some (if c \<in> set valid_clauses then ''Clause validated successfully''
                            else ''Clause validation failed'')
                 else None)\<rparr>)"


section \<open>cli/benchmark\_oracle.py\<close>

text \<open>
  A clause as \<^verbatim>\<open>generate_random_clauses\<close> builds it; the preconditions and the
  directives are dictionaries of booleans and integers, kept in the order written.
\<close>

record clause =
  cl_clause_id :: string
  cl_title :: string
  cl_type :: string
  cl_description :: string
  cl_preconditions :: "(string \<times> pyval) list"
  cl_execute :: "(string \<times> pyval) list"

text \<open>
  \<^verbatim>\<open>simulate_clause_validation\<close> returns \<^verbatim>\<open>random.random() > 0.1\<close>, with \<^verbatim>\<open>draw\<close> the
  random value. The context is the dictionary of \<^verbatim>\<open>benchmark_clause_validation\<close>.
  (\<^verbatim>\<open>simulate_agreement_creation\<close> returns a fresh agreement id and is not embedded: the
  hash of an agreement is computed by the backend behind the API, and by no function of
  these sources.)
\<close>

definition simulate_clause_validation :: "string \<Rightarrow> string \<Rightarrow> pydict \<Rightarrow> rat \<Rightarrow> bool" where
  "simulate_clause_validation agreement_id cid context draw = exceeds_0_1 draw"

text \<open>
  The specification's reading of a clause against a context, for comparison with the
  simulation: an entry of the preconditions holds when the context gives its key the
  same value (an absent key fails), and the emergency override applies when the clause
  carries \<^verbatim>\<open>emergency_override: true\<close> and the context's \<^verbatim>\<open>emergency\<close> flag is true.
\<close>

definition precondition_holds :: "pydict \<Rightarrow> string \<times> pyval \<Rightarrow> bool" where
  "precondition_holds context entry = (context (fst entry) = Some (snd entry))"

definition emergency_override_applies :: "clause \<Rightarrow> pydict \<Rightarrow> bool" where
  "emergency_override_applies c context =
     (map_of (cl_preconditions c) ''emergency_override'' = Some (PBool True)
      \<and> context ''emergency'' = Some (PBool True))"

definition spec_clause_valid :: "clause \<Rightarrow> pydict \<Rightarrow> bool" where
  "spec_clause_valid c context =
     (emergency_override_applies c context
      \<or> list_all (precondition_holds context) (cl_preconditions c))"



section \<open>frontend/app/policies/router.py\<close>

text \<open>
  The handler \<^verbatim>\<open>simulate_validation\<close> posts a validation request to the policy engine
  and, only when the answer allows the action, a second request to the oracle chain
  validator. The two HTTP calls of \<^verbatim>\<open>ZKPolicyClient\<close> are arguments of the model, and
  the handler returns, beside its JSON response, the calls it made in order.
\<close>

record validation_request =
  va_actor_id :: string
  va_actor_role :: string
  va_actor_country :: string
  va_action :: string
  va_location :: string
  va_resource_id :: string
  va_resource_type :: string
  va_timestamp :: string
  va_client_address :: string
  va_cross_jurisdiction :: "string option"

record oracle_validation_request =
  ov_policy_request :: validation_request
  ov_agreement_id :: string
  ov_clause_ids :: "string list"

datatype api_call =
    ValidateAction validation_request
  | ValidatePolicyWithOracle oracle_validation_request

fun is_oracle_call :: "api_call \<Rightarrow> bool" where
  "is_oracle_call (ValidateAction r) = False"
| "is_oracle_call (ValidatePolicyWithOracle r) = True"

record combined_response =
  policy_validation :: pydict
  oracle_validation :: "pydict option"

text \<open>
  \<^verbatim>\<open>actor_uuid\<close> and \<^verbatim>\<open>resource_uuid\<close> are the digits of the two fresh UUIDs, \<^verbatim>\<open>now\<close> is
  \<^verbatim>\<open>datetime.now().isoformat()\<close> and \<^verbatim>\<open>client_host\<close> is \<^verbatim>\<open>request.client.host\<close>. The
  form field \<^verbatim>\<open>cross_jurisdiction\<close> is added to the request only when it is truthy: given
  and not empty.
\<close>

definition simulate_validation ::
    "(validation_request \<Rightarrow> pydict) \<Rightarrow> (oracle_validation_request \<Rightarrow> pydict) \<Rightarrow>
     string \<Rightarrow> string \<Rightarrow> string \<Rightarrow> string option \<Rightarrow> string \<Rightarrow> string \<Rightarrow> string \<Rightarrow> string \<Rightarrow>
     combined_response \<times> api_call list" where
  "simulate_validation validate_action validate_policy_with_oracle
       role action country cross_jurisdiction client_host actor_uuid resource_uuid now =
     (let validation_request =
            \<lparr>va_actor_id = ''actor-'' @ take 8 actor_uuid,
             va_actor_role = role,
             va_actor_country = country,
             va_action = action,
             va_location = country,
             va_resource_id = ''resource-'' @ take 8 resource_uuid,
             va_resource_type = ''medical_record'',
             va_timestamp = now,
             va_client_address = client_host,
             va_cross_jurisdiction =
               (case cross_jurisdiction of
                  None \<Rightarrow> None
                | Some c \<Rightarrow> if c \<noteq> [] then Some c else None)\<rparr>;
          policy_response = validate_action validation_request
      in if truthy (dict_get policy_response ''allowed'' (PBool False)) then
           (let oracle_validation_request =
                  \<lparr>ov_policy_request = validation_request,
                   ov_agreement_id = ''oracle_agreement_'' @ country @ ''_'' @ action,
                   ov_clause_ids =
                     [''clause_'' @ country @ ''_'' @ action @ ''_1'',
                      ''clause_'' @ country @ ''_'' @ action @ ''_2'']\<rparr>;
                oracle_response = validate_policy_with_oracle oracle_validation_request
            in (\<lparr>policy_validation = policy_response,
                 oracle_validation = Some oracle_response\<rparr>,
                [ValidateAction validation_request,
                 ValidatePolicyWithOracle oracle_validation_request]))
         else
           (\<lparr>policy_validation = policy_response, oracle_validation = None\<rparr>,
            [ValidateAction validation_request]))"


section \<open>frontend/app/oracle/router.py\<close>

text \<open>
  The signed-in user is a dictionary read with \<^verbatim>\<open>.get\<close>: each of the three keys the
  handlers read may be absent. Every handler first asks the policy engine whether the
  user may act; the request it posts and the exception it raises are below. The
  dependency \<^verbatim>\<open>get_current_active_user\<close> and the form validation run before a handler and
  are not part of it.
\<close>

record current_user =
  cu_id :: "string option"
  cu_role :: "string option"
  cu_country :: "string option"

record policy_check =
  pc_actor_id :: "string option"
  pc_actor_role :: "string option"
  pc_actor_country :: "string option"
  pc_action :: string
  pc_location :: "string option"
  pc_resource_type :: string
  pc_resource_id :: "string option"

datatype http_exception = HTTPException nat string

definition policy_request_of ::
    "current_user \<Rightarrow> string \<Rightarrow> string \<Rightarrow> string option \<Rightarrow> policy_check" where
  "policy_request_of user action resource_type resource_id =
     \<lparr>pc_actor_id = cu_id user, pc_actor_role = cu_role user,
      pc_actor_country = cu_country user, pc_action = action,
      pc_location = cu_country user, pc_resource_type = resource_type,
      pc_resource_id = resource_id\<rparr>"

definition policy_allows :: "pydict \<Rightarrow> bool" where
  "policy_allows policy_response = truthy (dict_get policy_response ''allowed'' (PBool False))"

subsection \<open>create\_agreement\<close>

text \<open>
  The clauses arrive as one form string. \<^verbatim>\<open>json.loads\<close> is an argument of the model,
  with its three outcomes: a value, the \<^verbatim>\<open>JSONDecodeError\<close> that the handler catches, or
  another exception (a \<^verbatim>\<open>RecursionError\<close> on deeply nested text, a \<^verbatim>\<open>ValueError\<close> on an
  integer of too many digits), named by its class, that the handler does not catch.
  After a \<^verbatim>\<open>JSONDecodeError\<close> every non-blank line becomes a clause numbered by its
  position among all lines. \<^verbatim>\<open>str.strip\<close> removes the white space characters (below 256
  these are the code points 9 to 13, 28 to 32, 133 and 160), \<^verbatim>\<open>str.split("\n")\<close> cuts at
  every line feed.
\<close>

datatype json_outcome =
    JsonValue pyval
  | JSONDecodeError
  | JsonRaised string

definition is_space :: "char \<Rightarrow> bool" where
  "is_space c =
     (let n = (of_char c :: nat)
      in (9 \<le> n \<and> n \<le> 13) \<or> (28 \<le> n \<and> n \<le> 32) \<or> n = 133 \<or> n = 160)"

definition str_strip :: "string \<Rightarrow> string" where
  "str_strip s = rev (dropWhile is_space (rev (dropWhile is_space s)))"

fun split_lines :: "string \<Rightarrow> string list" where
  "split_lines [] = [[]]"
| "split_lines (c # cs) =
     (if c = CHR 0x0A then [] # split_lines cs
      else (case split_lines cs of
              [] \<Rightarrow> [[c]]
            | l # ls \<Rightarrow> (c # l) # ls))"

fun str_nat :: "nat \<Rightarrow> string" where
  "str_nat n =
     (if n < 10 then [char_of (48 + n)]
      else str_nat (n div 10) @ [char_of (48 + n mod 10)])"

definition fallback_clauses :: "string \<Rightarrow> pyval list" where
  "fallback_clauses clauses =
     map (\<lambda>(i, line). PDict [(''id'', PStr (''clause_'' @ str_nat (i + 1))),
                            (''text'', PStr (str_strip line))])
       (filter (\<lambda>(i, line). str_strip line \<noteq> [])
          (enumerate 0 (split_lines (str_strip clauses))))"

text \<open>The \<^verbatim>\<open>try\<close> statement: \<open>Inl\<close> is the exception that leaves it.\<close>

definition parse_clauses :: "(string \<Rightarrow> json_outcome) \<Rightarrow> string \<Rightarrow> string + pyval" where
  "parse_clauses json_loads clauses =
     (case json_loads clauses of
        JsonValue clauses_list \<Rightarrow> Inr clauses_list
      | JSONDecodeError \<Rightarrow> Inr (PList (fallback_clauses clauses))
      | JsonRaised exception \<Rightarrow> Inl exception)"

record agreement_data =
  ad_id :: string
  ad_name :: string
  ad_description :: string
  ad_type :: string
  ad_country :: string
  ad_cross_jurisdiction :: "string option"
  ad_clauses :: pyval
  ad_created_by :: "string option"
  ad_created_date :: string
  ad_status :: string

record redirect_response =
  rd_url :: string
  rd_status_code :: nat

text \<open>
  The call of the Oracle API is commented out in the source: the handler builds
  \<^verbatim>\<open>agreement_data\<close>, sends it nowhere and answers from a fixed successful
  \<^verbatim>\<open>oracle_response\<close>, whose key \<^verbatim>\<open>error\<close> is absent. The only HTTP call is the policy
  check. The handler ends in one of three ways: it raises an \<^verbatim>\<open>HTTPException\<close>, an
  exception of \<^verbatim>\<open>json.loads\<close> passes through it uncaught, or it returns the redirect.
\<close>

datatype handler_error =
    Raised http_exception
  | Uncaught string

definition oracle_response :: "string \<Rightarrow> pydict" where
  "oracle_response agreement_id =
     [''success'' \<mapsto> PBool True, ''id'' \<mapsto> PStr agreement_id,
      ''message'' \<mapsto> PStr ''Agreement created successfully'']"

definition create_agreement ::
    "(policy_check \<Rightarrow> pydict) \<Rightarrow> (string \<Rightarrow> json_outcome) \<Rightarrow> current_user \<Rightarrow>
     string \<Rightarrow> string \<Rightarrow> string \<Rightarrow> string \<Rightarrow> string option \<Rightarrow> string \<Rightarrow> string \<Rightarrow> string \<Rightarrow>
     handler_error + redirect_response" where
  "create_agreement validate_action json_loads user
       name description agreement_type country cross_jurisdiction clauses uuid_hex now =
     (let policy_response =
            validate_action
              (policy_request_of user ''create_oracle_agreement'' ''oracle_agreement'' None)
      in if \<not> policy_allows policy_response then
           Inl (Raised (HTTPException 403
                  ''Policy restriction: You are not authorized to create oracle agreements''))
         else
           (case parse_clauses json_loads clauses of
              Inl exception \<Rightarrow> Inl (Uncaught exception)
            | Inr clauses_list \<Rightarrow>
                (let agreement_id = ''ORA'' @ str_upper (take 8 uuid_hex);
                     agreement_data =
                       \<lparr>ad_id = agreement_id, ad_name = name, ad_description = description,
                        ad_type = agreement_type, ad_country = country,
                        ad_cross_jurisdiction = cross_jurisdiction, ad_clauses = clauses_list,
                        ad_created_by = cu_id user, ad_created_date = now,
                        ad_status = ''Active''\<rparr>;
                     response = oracle_response agreement_id
                 in if \<not> truthy (dict_get response ''success'' (PBool False)) then
                      Inl (Raised
                             (HTTPException 500 ''Failed to create agreement: Unknown error''))
                    else
                      Inr \<lparr>rd_url = ''/oracle/'' @ agreement_id, rd_status_code = 303\<rparr>)))"




subsection \<open>agreement\_detail\<close>

record agreement =
  ag_id :: string
  ag_name :: string
  ag_description :: string
  ag_type :: string
  ag_country :: "string option"
  ag_cross_jurisdiction :: "string option"
  ag_created_by :: string
  ag_created_date :: string
  ag_status :: string
  ag_clauses :: "(string \<times> string) list"

text \<open>
  The three agreements the view knows, as the source writes them; each clause is the pair
  of its \<^verbatim>\<open>id\<close> and its \<^verbatim>\<open>text\<close>.
\<close>

definition ora101 :: agreement where
  "ora101 =
     \<lparr>ag_id = ''ora101'',
      ag_name = ''Standard Medical Consultation Agreement'',
      ag_description = ''Standard agreement for medical consultations covering consent, privacy, and professional responsibilities.'',
      ag_type = ''consent'',
      ag_country = Some ''US'',
      ag_cross_jurisdiction = None,
      ag_created_by = ''admin'',
      ag_created_date = ''2025-01-15'',
      ag_status = ''Active'',
      ag_clauses =
        [(''clause1'', ''Patient provides informed consent for medical consultation.''),
         (''clause2'', ''Doctor confirms identity and credentials are valid.''),
         (''clause3'', ''Patient data will be handled according to HIPAA regulations.''),
         (''clause4'', ''Consultation will be securely recorded with patient consent.''),
         (''clause5'', ''Follow-up care instructions will be provided.'')]\<rparr>"

definition ora102 :: agreement where
  "ora102 =
     \<lparr>ag_id = ''ora102'',
      ag_name = ''Cross-Border Telemedicine Agreement'',
      ag_description = ''Agreement for telemedicine consultations across international borders.'',
      ag_type = ''legal_compliance'',
      ag_country = Some ''IN'',
      ag_cross_jurisdiction = Some ''US'',
      ag_created_by = ''admin'',
      ag_created_date = ''2025-02-22'',
      ag_status = ''Active'',
      ag_clauses =
        [(''clause1'', ''Doctor confirms licensure is valid in both jurisdictions.''),
         (''clause2'', ''Patient acknowledges cross-border nature of consultation.''),
         (''clause3'', ''Medical advice follows stricter of the two jurisdiction's standards.''),
         (''clause4'', ''Prescription medications must be legal in patient's jurisdiction.''),
         (''clause5'', ''Emergency referral to local resources will be provided if needed.''),
         (''clause6'', ''Data sovereignty requirements for both countries will be respected.''),
         (''clause7'', ''Dispute resolution will follow international telemedicine standards.''),
         (''clause8'', ''Billing and payments comply with both countries' regulations.'')]\<rparr>"

definition ora103 :: agreement where
  "ora103 =
     \<lparr>ag_id = ''ora103'',
      ag_name = ''Medication Prescription Protocol'',
      ag_description = ''Protocol for prescription medications including verification and monitoring procedures.'',
      ag_type = ''medical_protocol'',
      ag_country = Some ''CA'',
      ag_cross_jurisdiction = None,
      ag_created_by = ''admin'',
      ag_created_date = ''2025-03-10'',
      ag_status = ''Active'',
      ag_clauses =
        [(''clause1'', ''Prescriber must verify patient identity before prescribing.''),
         (''clause2'', ''Patient medical history must be reviewed for contraindications.''),
         (''clause3'', ''Prescription must comply with provincial formulary guidelines.''),
         (''clause4'', ''Controlled substances require additional verification steps.''),
         (''clause5'', ''Monitoring plan must be established for ongoing medications.''),
         (''clause6'', ''Patient must be informed of potential side effects.'')]\<rparr>"

text \<open>The \<^verbatim>\<open>else\<close> branch: "Generate a mock agreement if ID doesn't match known examples".\<close>

definition mock_agreement :: "current_user \<Rightarrow> string \<Rightarrow> agreement" where
  "mock_agreement user agreement_id =
     \<lparr>ag_id = agreement_id,
      ag_name = ''Example Agreement '' @ agreement_id,
      ag_description = ''Generic oracle agreement for demonstration purposes.'',
      ag_type = ''consent'',
      ag_country = cu_country user,
      ag_cross_jurisdiction = None,
      ag_created_by = ''admin'',
      ag_created_date = ''2025-04-01'',
      ag_status = ''Active'',
      ag_clauses =
        [(''clause1'', ''Example clause 1 for this agreement.''),
         (''clause2'', ''Example clause 2 for this agreement.''),
         (''clause3'', ''Example clause 3 for this agreement.'')]\<rparr>"

text \<open>
  The template response, without the fixed validation history and the echoed request
  and user: the page title and the agreement shown.
\<close>

record detail_page =
  dp_title :: string
  dp_agreement :: agreement

definition agreement_detail ::
    "(policy_check \<Rightarrow> pydict) \<Rightarrow> current_user \<Rightarrow> string \<Rightarrow> http_exception + detail_page" where
  "agreement_detail validate_action user agreement_id =
     (let policy_response =
            validate_action
              (policy_request_of user ''view_oracle_agreement'' ''oracle_agreement''
                 (Some agreement_id))
      in if \<not> policy_allows policy_response then
           Inl (HTTPException 403
                  ''Policy restriction: You are not authorized to view this oracle agreement'')
         else
           (let agreement =
                  (if agreement_id = ''ora101'' then ora101
                   else if agreement_id = ''ora102'' then ora102
                   else if agreement_id = ''ora103'' then ora103
                   else mock_agreement user agreement_id)
            in Inr \<lparr>dp_title = ''Oracle Agreement: '' @ ag_name agreement,
                    dp_agreement = agreement\<rparr>))"

text \<open>The ids that identify an agreement the view holds.\<close>

definition stored_agreement_ids :: "string list" where
  "stored_agreement_ids = [''ora101'', ''ora102'', ''ora103'']"

subsection \<open>validate\_agreement\<close>

record validation_details =
  vd_actor_validated :: bool
  vd_action_allowed :: bool
  vd_resource_accessible :: bool

record validation_response =
  vr_agreement_id :: string
  vr_validation_id :: string
  vr_timestamp :: string
  vr_valid :: bool
  vr_validated_clauses :: "string list"
  vr_failed_clauses :: "string list"
  vr_validation_details :: validation_details

text \<open>
  The handler of \<^verbatim>\<open>POST /validate/{agreement_id}\<close>. It builds \<^verbatim>\<open>validation_data\<close> from its
  inputs, calls nothing (the Oracle API call is commented out) and answers with a
  literal; only the agreement id, the UUID and the clock reach the response.
\<close>

definition validate_agreement ::
    "current_user \<Rightarrow> string \<Rightarrow> string \<Rightarrow> string \<Rightarrow> string \<Rightarrow> string \<Rightarrow> string \<Rightarrow>
     validation_response" where
  "validate_agreement user agreement_id action resource_id resource_type uuid_hex now =
     \<lparr>vr_agreement_id = agreement_id,
      vr_validation_id = ''val_'' @ take 8 uuid_hex,
      vr_timestamp = now,
      vr_valid = True,
      vr_validated_clauses = [''clause1'', ''clause2'', ''clause3''],
      vr_failed_clauses = [],
      vr_validation_details =
        \<lparr>vd_actor_validated = True, vd_action_allowed = True,
         vd_resource_accessible = True\<rparr>\<rparr>"


section \<open>cli/oracle\_commands.py\<close>












section \<open>Concrete inputs\<close>

text \<open>
  The inputs at which the theorems below are evaluated: a clause with two boolean
  preconditions and two contexts for it, two policy requests of the benchmark, a
  signed-in user, and stand-ins for the collaborators the handlers call.
\<close>

definition example_clause :: clause where
  "example_clause =
     \<lparr>cl_clause_id = ''clause_0a1b2c3d'', cl_title = ''Clause 1'', cl_type = ''consent'',
      cl_description = ''Description for clause 1'',
      cl_preconditions =
        [(''consent_obtained'', PBool True), (''identity_verified'', PBool True)],
      cl_execute = [(''log_access'', PBool True), (''notify_patient'', PBool False),
                    (''encrypt_data'', PBool True)]\<rparr>"

definition context_consenting :: pydict where
  "context_consenting =
     [''consent_obtained'' \<mapsto> PBool True, ''identity_verified'' \<mapsto> PBool True,
      ''location'' \<mapsto> PStr ''US'', ''emergency'' \<mapsto> PBool False]"

definition context_refusing :: pydict where
  "context_refusing =
     [''consent_obtained'' \<mapsto> PBool False, ''identity_verified'' \<mapsto> PBool True,
      ''location'' \<mapsto> PStr ''US'', ''emergency'' \<mapsto> PBool False]"

definition example_cross_request :: policy_request where
  "example_cross_request =
     \<lparr>pr_actor_role = ''specialist'', pr_action = ''diagnose'', pr_location = ''IN'',
      pr_cross_jurisdiction =
        Some \<lparr>ci_source_country = Some ''IN'', ci_target_country = Some ''US'',
              ci_agreement_id = Some ''agreement_0a1b2c3d''\<rparr>\<rparr>"

definition example_nurse_request :: policy_request where
  "example_nurse_request =
     \<lparr>pr_actor_role = ''nurse'', pr_action = ''prescribe'', pr_location = ''US'',
      pr_cross_jurisdiction = None\<rparr>"

definition example_user :: current_user where
  "example_user =
     \<lparr>cu_id = Some ''user42'', cu_role = Some ''admin'', cu_country = Some ''US''\<rparr>"

text \<open>A policy engine that allows every check, and one that denies every validation.\<close>

definition allowing_policy :: "policy_check \<Rightarrow> pydict" where
  "allowing_policy request = [''allowed'' \<mapsto> PBool True]"

definition denying_policy :: "validation_request \<Rightarrow> pydict" where
  "denying_policy request =
     [''allowed'' \<mapsto> PBool False, ''reason'' \<mapsto> PStr ''Insufficient role strength'']"

definition passing_oracle :: "oracle_validation_request \<Rightarrow> pydict" where
  "passing_oracle request = [''oracle_validated'' \<mapsto> PBool True]"

text \<open>
  \<^verbatim>\<open>json.loads\<close> at the texts the examples submit: two thousand opening brackets, on
  which it exceeds the default recursion limit; the empty list; and two clauses that share
  the id \<^verbatim>\<open>c1\<close>.
\<close>

definition deeply_nested :: string where
  "deeply_nested = replicate 2000 (CHR ''['')"

definition duplicate_clauses :: pyval where
  "duplicate_clauses =
     PList [PDict [(''id'', PStr ''c1''), (''text'', PStr ''Consent is obtained.'')],
            PDict [(''id'', PStr ''c1''), (''text'', PStr ''Identity is verified.'')]]"

definition example_json_loads :: "string \<Rightarrow> json_outcome" where
  \<open>example_json_loads text =
     (if text = deeply_nested then JsonRaised ''RecursionError''
      else if text = ''[]'' then JsonValue (PList [])
      else if text = ''[{"id": "c1", "text": "Consent is obtained."}, {"id": "c1", "text": "Identity is verified."}]''
      then JsonValue duplicate_clauses
      else JSONDecodeError)\<close>



section \<open>Evaluation of the case conversions\<close>


lemma lower_example: "str_lower ''US'' = ''us''"
  by code_simp


section \<open>Role validation denies by default\<close>

lemma map_of_list_ex:
  "map_of xs k = Some v \<Longrightarrow> list_ex (\<lambda>(a, b). a = k \<and> P a b) xs \<or> \<not> P k v"
  by (induction xs) (auto split: if_splits)

lemma role_allowed_listed:
  assumes "rv_allowed (simulate_role_validation_fallback request uuid_hex)"
  shows "action_listed (rr_role request) (rr_resource request) (rr_action request)"
proof -
  from assms obtain rs acts where
    rs: "map_of rbac_matrix (rr_role request) = Some rs" and
    acts: "map_of rs (rr_resource request) = Some acts" and
    mem: "rr_action request \<in> set acts"
    by (auto simp: simulate_role_validation_fallback_def Let_def split: option.splits)
  from acts mem have inner:
    "list_ex (\<lambda>(x, a). x = rr_resource request \<and> rr_action request \<in> set a) rs"
    using map_of_list_ex [of rs "rr_resource request" acts "\<lambda>x a. rr_action request \<in> set a"]
    by simp
  with rs show ?thesis
    using map_of_list_ex [of rbac_matrix "rr_role request" rs
        "\<lambda>r rs. list_ex (\<lambda>(x, a). x = rr_resource request \<and> rr_action request \<in> set a) rs"]
    by (simp add: action_listed_def)
qed

lemma action_listed_resource_listed:
  "action_listed role resource action \<Longrightarrow> resource_listed role resource"
  unfolding action_listed_def resource_listed_def list_ex_iff by fastforce

lemma resource_listed_role_registered:
  "resource_listed role resource \<Longrightarrow> role_registered role"
  unfolding resource_listed_def role_registered_def list_ex_iff by fastforce

text \<open>
  Claim C6. For every (role, resource, action) triple where the role is not registered in
  the role-capability matrix, or the resource is not listed for that role, or the action
  is not listed for that (role, resource) pair, role validation returns allowed = false.
\<close>

theorem role_validation_default_deny:
  assumes "\<not> role_registered role \<or> \<not> resource_listed role resource
             \<or> \<not> action_listed role resource action"
  shows "rv_allowed (simulate_role_validation_fallback
            \<lparr>rr_role = role, rr_resource = resource, rr_action = action\<rparr> uuid_hex) = False"
proof (rule ccontr)
  assume "rv_allowed (simulate_role_validation_fallback
            \<lparr>rr_role = role, rr_resource = resource, rr_action = action\<rparr> uuid_hex) \<noteq> False"
  then have "action_listed role resource action"
    using role_allowed_listed
      [of "\<lparr>rr_role = role, rr_resource = resource, rr_action = action\<rparr>" uuid_hex]
    by simp
  with assms show False
    using action_listed_resource_listed resource_listed_role_registered by blast
qed

theorem role_validation_default_deny_witness:
  "\<not> role_registered ''specialist'' \<and>
   rv_allowed (simulate_role_validation_fallback
      \<lparr>rr_role = ''specialist'', rr_resource = ''medical_record'', rr_action = ''read''\<rparr>
      ''0123456789abcdef0123456789abcdef'') = False"
proof -
  have h: "\<not> role_registered ''specialist''"
    by (simp add: role_registered_def rbac_matrix_def)
  then show ?thesis
    using role_validation_default_deny [of "''specialist''" "''medical_record''" "''read''"]
    by simp
qed


section \<open>Simulated clause validation\<close>

text \<open>
  Claim C1, as the code has it. For every agreement id, clause id and context, the
  simulated clause validation returns valid exactly when the random draw exceeds 0.1,
  and the same draw gives the same answer for every clause and every context: neither
  the preconditions nor the emergency flag are read.
\<close>

theorem clause_validation_draw_only:
  "simulate_clause_validation agreement_id cid context draw = (py_0_1 < draw)
   \<and> simulate_clause_validation agreement_id cid context draw
       = simulate_clause_validation agreement_id' cid' context' draw"
  by (simp add: simulate_clause_validation_def exceeds_0_1_def)

text \<open>
  The claim as stated fails: with every precondition of the clause holding in the
  context, the draw 0 gives invalid; with a precondition failing and no emergency, the
  draw 1/2 gives valid.
\<close>

theorem clause_validation_counterexample:
  "spec_clause_valid example_clause context_consenting
   \<and> simulate_clause_validation ''agreement_0123456789'' (cl_clause_id example_clause)
        context_consenting 0 = False
   \<and> \<not> spec_clause_valid example_clause context_refusing
   \<and> simulate_clause_validation ''agreement_0123456789'' (cl_clause_id example_clause)
        context_refusing (1 / 2) = True"
  by (simp add: spec_clause_valid_def emergency_override_applies_def precondition_holds_def
        example_clause_def context_consenting_def context_refusing_def
        simulate_clause_validation_def exceeds_0_1_def py_0_1_def)


section \<open>Cross-jurisdiction validation without a valid agreement\<close>

text \<open>
  Claim C2, as the code has it. For every request, when the simulated agreement between
  the source and the target country is not valid, the result has allowed = false, the
  reason "No valid agreement between <source> and <target>" (with a capital N), and a
  cross-jurisdiction entry whose agreement\_valid is false; this holds whatever the role
  check of the same request decided.
\<close>

theorem cross_jurisdiction_invalid_agreement_denies:
  assumes "\<not> exceeds_0_1 draw"
  shows "pv_allowed (simulate_cross_jurisdiction_validation_fallback request request_id now draw)
           = False
         \<and> pv_reason (simulate_cross_jurisdiction_validation_fallback request request_id now draw)
           = ''No valid agreement between '' @ cross_source request @ '' and ''
               @ cross_target request
         \<and> pv_cross_jurisdiction
             (simulate_cross_jurisdiction_validation_fallback request request_id now draw)
           = Some \<lparr>cr_source_country = cross_source request,
                   cr_target_country = cross_target request,
                   cr_agreement_valid = False,
                   cr_agreement_id = cross_agreement_id request\<rparr>"
  using assms by (simp add: simulate_cross_jurisdiction_validation_fallback_def Let_def)

theorem cross_jurisdiction_invalid_agreement_denies_witness:
  "\<not> exceeds_0_1 0
   \<and> pv_allowed (simulate_policy_validation_fallback example_cross_request
        ''123e4567-e89b-42d3-a456-426614174000'' ''2025-05-13T05:42:12'') = True
   \<and> pv_allowed (simulate_cross_jurisdiction_validation_fallback example_cross_request
        ''123e4567-e89b-42d3-a456-426614174000'' ''2025-05-13T05:42:12'' 0) = False
   \<and> pv_reason (simulate_cross_jurisdiction_validation_fallback example_cross_request
        ''123e4567-e89b-42d3-a456-426614174000'' ''2025-05-13T05:42:12'' 0)
      = ''No valid agreement between IN and US''"
proof -
  have invalid: "\<not> exceeds_0_1 0"
    by (simp add: exceeds_0_1_def py_0_1_def)
  have role_ok: "pv_allowed (simulate_policy_validation_fallback example_cross_request
        ''123e4567-e89b-42d3-a456-426614174000'' ''2025-05-13T05:42:12'') = True"
    by (simp add: simulate_policy_validation_fallback_def example_cross_request_def)
  have countries: "cross_source example_cross_request = ''IN''"
      "cross_target example_cross_request = ''US''"
    by (simp_all add: cross_source_def cross_target_def example_cross_request_def)
  from cross_jurisdiction_invalid_agreement_denies
    [where draw = 0 and request = example_cross_request
       and request_id = "''123e4567-e89b-42d3-a456-426614174000''"
       and now = "''2025-05-13T05:42:12''"]
    invalid role_ok countries
  show ?thesis by simp
qed

text \<open>
  The reason string of the claim, in lower case, is not the one returned.
\<close>

theorem cross_jurisdiction_reason_counterexample:
  "pv_allowed (simulate_cross_jurisdiction_validation_fallback example_cross_request
       ''123e4567-e89b-42d3-a456-426614174000'' ''2025-05-13T05:42:12'' 0) = False
   \<and> pv_reason (simulate_cross_jurisdiction_validation_fallback example_cross_request
       ''123e4567-e89b-42d3-a456-426614174000'' ''2025-05-13T05:42:12'' 0)
     = ''No valid agreement between IN and US''
   \<and> pv_reason (simulate_cross_jurisdiction_validation_fallback example_cross_request
       ''123e4567-e89b-42d3-a456-426614174000'' ''2025-05-13T05:42:12'' 0)
     \<noteq> ''no valid agreement between IN and US''"
  by (simp add: simulate_cross_jurisdiction_validation_fallback_def
        simulate_policy_validation_fallback_def example_cross_request_def cross_source_def
        cross_target_def exceeds_0_1_def py_0_1_def Let_def)


section \<open>A nurse may not prescribe\<close>

text \<open>
  Claim C4, as the code has it. For every policy validation request with actor role nurse
  and action prescribe, the decision is allowed = false with exactly the reason string
  "Action prescribe not allowed for nurse"; the result holds the policy fields only, with
  no clause results and no cross-jurisdiction entry.
\<close>

theorem nurse_prescribe_denied:
  assumes "pr_actor_role request = ''nurse''" and "pr_action request = ''prescribe''"
  shows "simulate_policy_validation_fallback request request_id now =
           \<lparr>pv_allowed = False,
            pv_reason = ''Action prescribe not allowed for nurse'',
            pv_validator_id = ''validator_'' @ str_lower (pr_location request),
            pv_validator_name = pr_location request @ '' Health Authority'',
            pv_request_id = request_id,
            pv_timestamp = now @ ''Z'',
            pv_cross_jurisdiction = None\<rparr>"
  using assms by (simp add: simulate_policy_validation_fallback_def)

theorem nurse_prescribe_denied_witness:
  "pr_actor_role example_nurse_request = ''nurse''
   \<and> pr_action example_nurse_request = ''prescribe''
   \<and> simulate_policy_validation_fallback example_nurse_request
        ''123e4567-e89b-42d3-a456-426614174000'' ''2025-05-13T05:42:12''
      = \<lparr>pv_allowed = False,
         pv_reason = ''Action prescribe not allowed for nurse'',
         pv_validator_id = ''validator_us'',
         pv_validator_name = ''US Health Authority'',
         pv_request_id = ''123e4567-e89b-42d3-a456-426614174000'',
         pv_timestamp = ''2025-05-13T05:42:12Z'',
         pv_cross_jurisdiction = None\<rparr>"
proof -
  have role: "pr_actor_role example_nurse_request = ''nurse''"
    and action: "pr_action example_nurse_request = ''prescribe''"
    and location: "pr_location example_nurse_request = ''US''"
    by (simp_all add: example_nurse_request_def)
  from nurse_prescribe_denied
    [OF role action, of "''123e4567-e89b-42d3-a456-426614174000''" "''2025-05-13T05:42:12''"]
    role action location lower_example
  show ?thesis by simp
qed

theorem nurse_prescribe_reason_counterexample:
  "pv_allowed (simulate_policy_validation_fallback example_nurse_request
       ''123e4567-e89b-42d3-a456-426614174000'' ''2025-05-13T05:42:12'') = False
   \<and> pv_reason (simulate_policy_validation_fallback example_nurse_request
       ''123e4567-e89b-42d3-a456-426614174000'' ''2025-05-13T05:42:12'')
     \<noteq> ''action not permitted for role''"
  by (simp add: simulate_policy_validation_fallback_def example_nurse_request_def)


section \<open>A denied policy check skips the oracle\<close>

text \<open>
  Claim C5, as the code has it. For every request to the handler \<^verbatim>\<open>simulate_validation\<close>
  of the policy router that the role-capability check denies (the policy engine's answer
  has no truthy \<^verbatim>\<open>allowed\<close>), no oracle clause evaluation occurs: the only call made is the
  policy validation, and the returned decision's oracle validation, which would hold the
  per-clause results, is absent.
\<close>

theorem policy_denial_skips_oracle:
  assumes "simulate_validation validate_action validate_policy_with_oracle
             role action country cross_jurisdiction client_host actor_uuid resource_uuid now
           = (response, calls)"
      and "\<not> truthy (dict_get (policy_validation response) ''allowed'' (PBool False))"
  shows "oracle_validation response = None \<and> filter is_oracle_call calls = []
         \<and> length calls = 1"
  using assms
  by (auto simp: simulate_validation_def Let_def split: if_splits)

theorem policy_denial_skips_oracle_witness:
  "\<not> truthy (dict_get (policy_validation
        (fst (simulate_validation denying_policy passing_oracle ''nurse'' ''prescribe'' ''US''
               None ''127.0.0.1'' ''0123456789abcdef0123456789abcdef''
               ''fedcba9876543210fedcba9876543210'' ''2025-05-13T05:42:12'')))
        ''allowed'' (PBool False))
   \<and> oracle_validation
        (fst (simulate_validation denying_policy passing_oracle ''nurse'' ''prescribe'' ''US''
               None ''127.0.0.1'' ''0123456789abcdef0123456789abcdef''
               ''fedcba9876543210fedcba9876543210'' ''2025-05-13T05:42:12'')) = None
   \<and> filter is_oracle_call
        (snd (simulate_validation denying_policy passing_oracle ''nurse'' ''prescribe'' ''US''
               None ''127.0.0.1'' ''0123456789abcdef0123456789abcdef''
               ''fedcba9876543210fedcba9876543210'' ''2025-05-13T05:42:12'')) = []"
proof -
  let ?r = "simulate_validation denying_policy passing_oracle ''nurse'' ''prescribe'' ''US''
               None ''127.0.0.1'' ''0123456789abcdef0123456789abcdef''
               ''fedcba9876543210fedcba9876543210'' ''2025-05-13T05:42:12''"
  have run: "?r = (fst ?r, snd ?r)" by simp
  have deny: "\<not> truthy (dict_get (policy_validation (fst ?r)) ''allowed'' (PBool False))"
    by (simp add: simulate_validation_def denying_policy_def dict_get_def Let_def)
  from policy_denial_skips_oracle [OF run deny] deny show ?thesis by simp
qed


text \<open>
  The short circuit belongs to that handler. The benchmark's simulation of the combined
  policy and oracle endpoint classifies every clause id whatever the policy result.
\<close>

lemma classify_clauses_covers:
  "classify_clauses draws i cs valid invalid = (valid', invalid') \<Longrightarrow>
     set valid' \<union> set invalid' = set valid \<union> set invalid \<union> set cs
     \<and> length valid' + length invalid' = length valid + length invalid + length cs"
  by (induction cs arbitrary: i valid invalid) (auto split: if_splits)

lemma integration_classifies_every_clause:
  "set (ig_valid_clauses
          (simulate_policy_oracle_integration_fallback oracle_request request_id now draws))
   \<union> set (ig_invalid_clauses
          (simulate_policy_oracle_integration_fallback oracle_request request_id now draws))
   = set (oq_clause_ids oracle_request)"
proof -
  obtain v inv where
    c: "classify_clauses draws 0 (oq_clause_ids oracle_request) [] [] = (v, inv)"
    by (cases "classify_clauses draws 0 (oq_clause_ids oracle_request) [] []")
  from classify_clauses_covers [OF c] c show ?thesis
    by (simp add: simulate_policy_oracle_integration_fallback_def Let_def)
qed

text \<open>
  The claim as stated, for every denied request, fails there: a nurse's request to
  prescribe is denied by the role check, and both of its clauses are evaluated and
  returned as valid.
\<close>

theorem denied_request_clauses_evaluated_counterexample:
  "pv_allowed (ig_policy_result
      (simulate_policy_oracle_integration_fallback
         \<lparr>oq_policy_request = example_nurse_request, oq_agreement_id = ''agreement_0a1b2c3d'',
          oq_clause_ids = [''clause_0a1b2c'', ''clause_3d4e5f'']\<rparr>
         ''123e4567-e89b-42d3-a456-426614174000'' ''2025-05-13T05:42:12'' (\<lambda>i. 1 / 2))) = False
   \<and> ig_valid_clauses
      (simulate_policy_oracle_integration_fallback
         \<lparr>oq_policy_request = example_nurse_request, oq_agreement_id = ''agreement_0a1b2c3d'',
          oq_clause_ids = [''clause_0a1b2c'', ''clause_3d4e5f'']\<rparr>
         ''123e4567-e89b-42d3-a456-426614174000'' ''2025-05-13T05:42:12'' (\<lambda>i. 1 / 2))
     = [''clause_0a1b2c'', ''clause_3d4e5f'']
   \<and> ig_oracle_validated
      (simulate_policy_oracle_integration_fallback
         \<lparr>oq_policy_request = example_nurse_request, oq_agreement_id = ''agreement_0a1b2c3d'',
          oq_clause_ids = [''clause_0a1b2c'', ''clause_3d4e5f'']\<rparr>
         ''123e4567-e89b-42d3-a456-426614174000'' ''2025-05-13T05:42:12'' (\<lambda>i. 1 / 2)) = True"
  by (simp add: simulate_policy_oracle_integration_fallback_def
        simulate_policy_validation_fallback_def example_nurse_request_def
        exceeds_0_1_def py_0_1_def Let_def)


section \<open>Validator selection for an unregistered location\<close>

text \<open>
  Claim C7, as the code has it. For every request whose location has no entry in the
  validator mapping, whatever its action, validator selection does not fail: it returns
  the placeholder validator with id "unknown" and name "Unknown" for that country,
  governing the same four actions as every other validator.
\<close>

theorem unregistered_location_gets_placeholder:
  assumes "\<not> validator_registered (vq_location request)"
  shows "simulate_validator_selection_fallback request clock =
           \<lparr>vs_validator_id = ''unknown'', vs_validator_name = ''Unknown'',
            vs_country = vq_location request,
            vs_validates_for = [''prescribe'', ''diagnose'', ''refer'', ''issue_certificate''],
            vs_validation_time = clock\<rparr>
         \<and> simulate_validator_selection_fallback (request\<lparr>vq_action := action\<rparr>) clock
           = simulate_validator_selection_fallback request clock"
  using assms
  by (auto simp: simulate_validator_selection_fallback_def validator_registered_def
        validator_mapping_def Let_def)

theorem unregistered_location_gets_placeholder_witness:
  "\<not> validator_registered (vq_location \<lparr>vq_action = ''edit_records'', vq_location = ''FR''\<rparr>)
   \<and> simulate_validator_selection_fallback
        \<lparr>vq_action = ''edit_records'', vq_location = ''FR''\<rparr> 1747114932
      = \<lparr>vs_validator_id = ''unknown'', vs_validator_name = ''Unknown'', vs_country = ''FR'',
         vs_validates_for = [''prescribe'', ''diagnose'', ''refer'', ''issue_certificate''],
         vs_validation_time = 1747114932\<rparr>"
proof -
  have absent:
    "\<not> validator_registered (vq_location \<lparr>vq_action = ''edit_records'', vq_location = ''FR''\<rparr>)"
    by (simp add: validator_registered_def validator_mapping_def)
  from unregistered_location_gets_placeholder [OF absent, of 1747114932 "''prescribe''"] absent
  show ?thesis by simp
qed

text \<open>
  The claim as stated fails: Australia has no entry in the mapping, and the selection
  for it is the placeholder validator, not an error.
\<close>

theorem validator_selection_counterexample:
  "\<not> validator_registered ''AU''
   \<and> simulate_validator_selection_fallback
        \<lparr>vq_action = ''prescribe'', vq_location = ''AU''\<rparr> 1747114932
     = \<lparr>vs_validator_id = ''unknown'', vs_validator_name = ''Unknown'', vs_country = ''AU'',
        vs_validates_for = [''prescribe'', ''diagnose'', ''refer'', ''issue_certificate''],
        vs_validation_time = 1747114932\<rparr>"
  by (simp add: validator_registered_def validator_mapping_def
        simulate_validator_selection_fallback_def)


section \<open>Agreement creation does not check the clause list\<close>








text \<open>
  The one input the handler does not answer with the redirect: on text that makes
  \<^verbatim>\<open>json.loads\<close> raise a \<^verbatim>\<open>RecursionError\<close>, the exception leaves the handler.
\<close>

lemma create_agreement_uncaught_example:
  "create_agreement allowing_policy example_json_loads example_user
     ''Consultation'' ''Standard consultation'' ''consent'' ''US'' None deeply_nested
     ''0a1b2c3d4e5f60718293a4b5c6d7e8f9'' ''2025-05-13T05:42:12''
   = Inl (Uncaught ''RecursionError'')"
  by (simp add: create_agreement_def parse_clauses_def example_json_loads_def
        allowing_policy_def policy_allows_def dict_get_def)


section \<open>The detail view of an unknown agreement\<close>

text \<open>
  Claim C9, as the code has it. For every agreement id other than the three the view
  holds, once the policy check allows the user, the detail view returns a generated
  agreement that carries the requested id, the name "Example Agreement <id>" and three
  example clauses; it does not answer with a NotFound (404) error.
\<close>

theorem unknown_agreement_gets_mock:
  assumes "agreement_id \<notin> set stored_agreement_ids"
      and "policy_allows (validate_action
             (policy_request_of user ''view_oracle_agreement'' ''oracle_agreement''
                (Some agreement_id)))"
  shows "agreement_detail validate_action user agreement_id
           = Inr \<lparr>dp_title = ''Oracle Agreement: Example Agreement '' @ agreement_id,
                  dp_agreement = mock_agreement user agreement_id\<rparr>
         \<and> ag_id (mock_agreement user agreement_id) = agreement_id
         \<and> agreement_detail validate_action user agreement_id
           \<noteq> Inl (HTTPException 404 detail)"
  using assms
  by (simp add: agreement_detail_def stored_agreement_ids_def mock_agreement_def Let_def)

theorem unknown_agreement_gets_mock_witness:
  "''ora999'' \<notin> set stored_agreement_ids
   \<and> policy_allows (allowing_policy
        (policy_request_of example_user ''view_oracle_agreement'' ''oracle_agreement''
           (Some ''ora999'')))
   \<and> agreement_detail allowing_policy example_user ''ora999''
     = Inr \<lparr>dp_title = ''Oracle Agreement: Example Agreement ora999'',
            dp_agreement = mock_agreement example_user ''ora999''\<rparr>"
proof -
  have fresh: "''ora999'' \<notin> set stored_agreement_ids"
    by (simp add: stored_agreement_ids_def)
  have allow: "policy_allows (allowing_policy
        (policy_request_of example_user ''view_oracle_agreement'' ''oracle_agreement''
           (Some ''ora999'')))"
    by (simp add: policy_allows_def allowing_policy_def dict_get_def)
  from unknown_agreement_gets_mock [of "''ora999''" allowing_policy example_user] fresh allow
  show ?thesis by simp
qed

text \<open>
  The claim as stated fails: the id ora404 identifies no agreement of the view, and the
  view answers with an agreement made up for it.
\<close>

theorem agreement_detail_counterexample:
  "''ora404'' \<notin> set stored_agreement_ids
   \<and> agreement_detail allowing_policy example_user ''ora404''
     = Inr \<lparr>dp_title = ''Oracle Agreement: Example Agreement ora404'',
            dp_agreement =
              \<lparr>ag_id = ''ora404'',
               ag_name = ''Example Agreement ora404'',
               ag_description = ''Generic oracle agreement for demonstration purposes.'',
               ag_type = ''consent'',
               ag_country = Some ''US'',
               ag_cross_jurisdiction = None,
               ag_created_by = ''admin'',
               ag_created_date = ''2025-04-01'',
               ag_status = ''Active'',
               ag_clauses =
                 [(''clause1'', ''Example clause 1 for this agreement.''),
                  (''clause2'', ''Example clause 2 for this agreement.''),
                  (''clause3'', ''Example clause 3 for this agreement.'')]\<rparr>\<rparr>"
  by (simp add: stored_agreement_ids_def agreement_detail_def allowing_policy_def
        policy_allows_def dict_get_def mock_agreement_def example_user_def Let_def)


section \<open>Agreement validation always succeeds\<close>

text \<open>
  Claim C10. For every input to the agreement-validation endpoint (any agreement id,
  action, resource id and resource type, for any user), the handler returns valid = true
  with the validated clauses exactly clause1, clause2, clause3 and an empty list of
  failed clauses.
\<close>

theorem validate_agreement_always_valid:
  "vr_valid (validate_agreement user agreement_id action resource_id resource_type uuid_hex now)
     = True
   \<and> vr_validated_clauses
        (validate_agreement user agreement_id action resource_id resource_type uuid_hex now)
      = [''clause1'', ''clause2'', ''clause3'']
   \<and> vr_failed_clauses
        (validate_agreement user agreement_id action resource_id resource_type uuid_hex now) = []"
  by (simp add: validate_agreement_def)

end
